theory Spec2Isabelle
  imports Complex_Main "HOL-Library.AList"
begin

section \<open>Python values\<close>

text \<open>
  Both scripts work on what \<^verbatim>\<open>json.load\<close> returns: \<^verbatim>\<open>None\<close>, booleans, integers,
  floats, strings, lists and dictionaries with string keys. Python's loader also accepts
  the literals \<^verbatim>\<open>NaN\<close>, \<^verbatim>\<open>Infinity\<close> and \<^verbatim>\<open>-Infinity\<close>, and the cleaner tests for
  a NaN (\<^verbatim>\<open>age != age\<close>), so a float is NaN, an infinity, or a finite value.

  A finite float is modelled by a rational number, a float literal by the decimal it is
  written as, and a float operation by the exact operation on rationals, whose result
  becomes an infinity when it is beyond the range of a double. Rounding to 53 bits and
  negative zero are outside the model. Strings are lists of characters and are taken to
  be ASCII: letter case, digits and whitespace are those of ASCII.

  A dictionary is an association list in insertion order: \<^verbatim>\<open>d.get(k)\<close> is
  \<^const>\<open>map_of\<close>, and \<^verbatim>\<open>d[k] = v\<close> is \<^const>\<open>AList.update\<close>, which replaces the value of a
  key that is present and appends a new key at the end, as Python does.
\<close>

datatype pyfloat = NaN | PosInf | NegInf | Finite rat

datatype pyval =
    PNone
  | PBool bool
  | PInt int
  | PFloat pyfloat
  | PStr string
  | PList "pyval list"
  | PDict "(string \<times> pyval) list"

type_synonym pydict = "(string \<times> pyval) list"

subsection \<open>Errors\<close>

text \<open>
  Every exception the two transforms can raise. The three \<^verbatim>\<open>ValueError\<close>s of the dosage
  calculator whose message interpolates the patient record carry that record; the fourth
  interpolates only the type name of the offending value.
\<close>

datatype error =
    InvalidWeight pydict
  | MissingMedication pydict
  | MissingFirstDose pydict
  | InvalidFirstDose string
  | KeyError string
  | AttributeError
  | TypeError
  | ValueError
  | OverflowError

text \<open>The errors whose message contains the record \<open>p\<close>.\<close>

fun names_record :: "error \<Rightarrow> pydict \<Rightarrow> bool" where
  "names_record (InvalidWeight q) p = (q = p)"
| "names_record (MissingMedication q) p = (q = p)"
| "names_record (MissingFirstDose q) p = (q = p)"
| "names_record _ p = False"

subsection \<open>Numbers\<close>

text \<open>The numbers: what \<^verbatim>\<open>isinstance(x, (int, float))\<close> accepts. A \<^verbatim>\<open>bool\<close> is an \<^verbatim>\<open>int\<close>.\<close>

datatype pynum = NInt int | NFloat pyfloat

fun as_num :: "pyval \<Rightarrow> pynum option" where
  "as_num (PBool b) = Some (NInt (if b then 1 else 0))"
| "as_num (PInt n) = Some (NInt n)"
| "as_num (PFloat f) = Some (NFloat f)"
| "as_num _ = None"

fun of_num :: "pynum \<Rightarrow> pyval" where
  "of_num (NInt n) = PInt n"
| "of_num (NFloat f) = PFloat f"

text \<open>
  The magnitude from which a value rounds to \<open>2 ^ 1024\<close>, beyond the largest double
  \<open>2 ^ 1024 - 2 ^ 971\<close>: a float operation with such a result gives an infinity, and the
  conversion of such an integer to a float raises \<^verbatim>\<open>OverflowError\<close>.
\<close>

definition float_limit :: rat where
  "float_limit = 2 ^ 1024 - 2 ^ 970"

definition float_result :: "rat \<Rightarrow> pyfloat" where
  "float_result q =
     (if float_limit \<le> q then PosInf else if q \<le> - float_limit then NegInf else Finite q)"

text \<open>The operand of a float operation: an integer is converted first.\<close>

fun to_float :: "pynum \<Rightarrow> error + pyfloat" where
  "to_float (NInt n) =
     (if float_limit \<le> \<bar>of_int n\<bar> then Inl OverflowError else Inr (Finite (of_int n)))"
| "to_float (NFloat f) = Inr f"

text \<open>The operand of a comparison: integers and floats are compared by their exact
  values, without conversion.\<close>

fun exact :: "pynum \<Rightarrow> pyfloat" where
  "exact (NInt n) = Finite (of_int n)"
| "exact (NFloat f) = f"

fun float_sgn :: "pyfloat \<Rightarrow> int" where
  "float_sgn NaN = 0"
| "float_sgn PosInf = 1"
| "float_sgn NegInf = - 1"
| "float_sgn (Finite q) = (if q = 0 then 0 else if 0 < q then 1 else - 1)"

fun float_mul :: "pyfloat \<Rightarrow> pyfloat \<Rightarrow> pyfloat" where
  "float_mul (Finite a) (Finite b) = float_result (a * b)"
| "float_mul NaN y = NaN"
| "float_mul x NaN = NaN"
| "float_mul x y =
     (if float_sgn x = 0 \<or> float_sgn y = 0 then NaN
      else if float_sgn x = float_sgn y then PosInf else NegInf)"

fun float_add :: "pyfloat \<Rightarrow> pyfloat \<Rightarrow> pyfloat" where
  "float_add (Finite a) (Finite b) = float_result (a + b)"
| "float_add NaN y = NaN"
| "float_add x NaN = NaN"
| "float_add PosInf NegInf = NaN"
| "float_add NegInf PosInf = NaN"
| "float_add PosInf y = PosInf"
| "float_add NegInf y = NegInf"
| "float_add (Finite a) y = y"

text \<open>\<^verbatim>\<open>x <= y\<close> on floats: every comparison with a NaN is false.\<close>

fun float_le :: "pyfloat \<Rightarrow> pyfloat \<Rightarrow> bool" where
  "float_le NaN y = False"
| "float_le x NaN = False"
| "float_le (Finite a) (Finite b) = (a \<le> b)"
| "float_le NegInf y = True"
| "float_le x PosInf = True"
| "float_le x y = False"

text \<open>\<^verbatim>\<open>x * y\<close> and \<^verbatim>\<open>x + y\<close> on numbers: integer arithmetic on two integers, float
  arithmetic otherwise.\<close>

fun num_mul :: "pynum \<Rightarrow> pynum \<Rightarrow> error + pynum" where
  "num_mul (NInt a) (NInt b) = Inr (NInt (a * b))"
| "num_mul x y =
     (case to_float x of
        Inl e \<Rightarrow> Inl e
      | Inr fx \<Rightarrow> (case to_float y of
                    Inl e \<Rightarrow> Inl e
                  | Inr fy \<Rightarrow> Inr (NFloat (float_mul fx fy))))"

fun num_add :: "pynum \<Rightarrow> pynum \<Rightarrow> error + pynum" where
  "num_add (NInt a) (NInt b) = Inr (NInt (a + b))"
| "num_add x y =
     (case to_float x of
        Inl e \<Rightarrow> Inl e
      | Inr fx \<Rightarrow> (case to_float y of
                    Inl e \<Rightarrow> Inl e
                  | Inr fy \<Rightarrow> Inr (NFloat (float_add fx fy))))"

fun num_le :: "pynum \<Rightarrow> pynum \<Rightarrow> bool" where
  "num_le (NInt a) (NInt b) = (a \<le> b)"
| "num_le x y = float_le (exact x) (exact y)"

text \<open>\<^verbatim>\<open>x >= y\<close> is \<^verbatim>\<open>y <= x\<close>.\<close>

definition num_ge :: "pynum \<Rightarrow> pynum \<Rightarrow> bool" where
  "num_ge x y = num_le y x"

text \<open>\<^verbatim>\<open>x == 0\<close> on numbers.\<close>

fun num_is_zero :: "pynum \<Rightarrow> bool" where
  "num_is_zero (NInt n) = (n = 0)"
| "num_is_zero (NFloat f) = (f = Finite 0)"

text \<open>Truth value of an object, as \<^verbatim>\<open>not x\<close> and \<^verbatim>\<open>if x\<close> test it.\<close>

fun truthy :: "pyval \<Rightarrow> bool" where
  "truthy PNone = False"
| "truthy (PBool b) = b"
| "truthy (PInt n) = (n \<noteq> 0)"
| "truthy (PFloat f) = (f \<noteq> Finite 0)"
| "truthy (PStr s) = (s \<noteq> [])"
| "truthy (PList xs) = (xs \<noteq> [])"
| "truthy (PDict d) = (d \<noteq> [])"

text \<open>Lists and dictionaries are unhashable: using one as a dictionary key or a set
  member raises \<^verbatim>\<open>TypeError\<close>.\<close>

fun hashable :: "pyval \<Rightarrow> bool" where
  "hashable (PList xs) = False"
| "hashable (PDict d) = False"
| "hashable _ = True"

text \<open>\<^verbatim>\<open>type(x).__name__\<close>\<close>

fun type_name :: "pyval \<Rightarrow> string" where
  "type_name PNone = ''NoneType''"
| "type_name (PBool b) = ''bool''"
| "type_name (PInt n) = ''int''"
| "type_name (PFloat f) = ''float''"
| "type_name (PStr s) = ''str''"
| "type_name (PList xs) = ''list''"
| "type_name (PDict d) = ''dict''"

text \<open>\<^verbatim>\<open>d.get(k)\<close> (\<^verbatim>\<open>None\<close> when the key is absent) and \<^verbatim>\<open>d.get(k, default)\<close>.\<close>

definition dict_get_default :: "pydict \<Rightarrow> string \<Rightarrow> pyval \<Rightarrow> pyval" where
  "dict_get_default d k dflt = (case map_of d k of None \<Rightarrow> dflt | Some v \<Rightarrow> v)"

definition dict_get :: "pydict \<Rightarrow> string \<Rightarrow> pyval" where
  "dict_get d k = dict_get_default d k PNone"

definition dict_keys :: "pydict \<Rightarrow> string set" where
  "dict_keys d = fst ` set d"

section \<open>The dosage calculator (\<^verbatim>\<open>2_med_dosage_calculator.py\<close>)\<close>

definition DOSAGE_FACTORS :: "(string \<times> pynum) list" where
  "DOSAGE_FACTORS =
    [(''epinephrine'', NFloat (Finite (1 / 100))),
     (''amiodarone'', NFloat (Finite 5)),
     (''lorazepam'', NFloat (Finite (5 / 100))),
     (''fentanyl'', NFloat (Finite (1 / 1000))),
     (''lisinopril'', NFloat (Finite (5 / 10))),
     (''metformin'', NFloat (Finite 10)),
     (''oseltamivir'', NFloat (Finite (25 / 10))),
     (''sumatriptan'', NFloat (Finite 1)),
     (''albuterol'', NFloat (Finite (1 / 10))),
     (''ibuprofen'', NFloat (Finite 5)),
     (''sertraline'', NFloat (Finite (15 / 10))),
     (''levothyroxine'', NFloat (Finite (2 / 100)))]"

definition LOADING_DOSE_MEDICATIONS :: "string list" where
  "LOADING_DOSE_MEDICATIONS = [''amiodarone'', ''lorazepam'', ''fentynal'']"

text \<open>\<^verbatim>\<open>DOSAGE_FACTORS.get(medication, 0)\<close>: the key is hashed first; only a string can
  equal a key of the table.\<close>

definition factor_of :: "pyval \<Rightarrow> error + pynum" where
  "factor_of medication =
     (if \<not> hashable medication then Inl TypeError
      else case medication of
             PStr s \<Rightarrow> (case map_of DOSAGE_FACTORS s of Some f \<Rightarrow> Inr f | None \<Rightarrow> Inr (NInt 0))
           | _ \<Rightarrow> Inr (NInt 0))"

text \<open>\<^verbatim>\<open>medication in LOADING_DOSE_MEDICATIONS\<close>: list membership compares with \<^verbatim>\<open>==\<close>.\<close>

definition in_loading :: "pyval \<Rightarrow> bool" where
  "in_loading medication =
     (case medication of PStr s \<Rightarrow> s \<in> set LOADING_DOSE_MEDICATIONS | _ \<Rightarrow> False)"

text \<open>Lines 171 to 179: the advisory strings.\<close>

definition warnings_for :: "pyval \<Rightarrow> pyval list" where
  "warnings_for medication =
     (if medication = PStr ''epinephrine'' then [PStr ''Monitor for arrhythmias'']
      else if medication = PStr ''amiodarone'' then [PStr ''Monitor for hypotension'']
      else if medication = PStr ''fentanyl'' then [PStr ''Monitor for respiratory depression'']
      else [])"

text \<open>The values \<^verbatim>\<open>calculate_dosage\<close> computes, in the order of the source.\<close>

record dosage =
  base_dosage :: pynum
  loading_dose_applied :: bool
  final_dosage :: pynum
  warnings :: "pyval list"

text \<open>Lines 137 and 142: the factor lookup and the product.\<close>

definition base_of :: "pynum \<Rightarrow> pyval \<Rightarrow> error + pynum" where
  "base_of weight medication =
     (case factor_of medication of
        Inl e \<Rightarrow> Inl e
      | Inr factor \<Rightarrow> num_mul weight factor)"

text \<open>
  Lines 124 to 163 and 171 to 179 of \<^verbatim>\<open>calculate_dosage\<close>: everything the function reads
  and computes. All reads are from \<^verbatim>\<open>patient\<close>, none from the copy. The checks are in
  the order of the source: weight, medication, the factor lookup and the product, then
  \<^verbatim>\<open>is_first_dose\<close>, which is read with the default \<^verbatim>\<open>False\<close>.
\<close>

definition dosage_of :: "pydict \<Rightarrow> error + dosage" where
  "dosage_of patient =
    (let weight = dict_get patient ''weight'' in
     case (if weight = PNone then None else as_num weight) of
       None \<Rightarrow> Inl (InvalidWeight patient)
     | Some w \<Rightarrow>
        if num_le w (NInt 0) then Inl (InvalidWeight patient)
        else
          let medication = dict_get patient ''medication'' in
          if \<not> truthy medication then Inl (MissingMedication patient)
          else
            case base_of w medication of
              Inl e \<Rightarrow> Inl e
            | Inr base \<Rightarrow>
                let is_first_dose = dict_get_default patient ''is_first_dose'' (PBool False)
                in if is_first_dose = PNone then Inl (MissingFirstDose patient)
                   else
                     case is_first_dose of
                       PBool first \<Rightarrow>
                         let loading = (first \<and> in_loading medication) in
                         (case (if loading then num_mul base (NInt 2) else Inr base) of
                            Inl e \<Rightarrow> Inl e
                          | Inr final \<Rightarrow>
                              Inr \<lparr>base_dosage = base, loading_dose_applied = loading,
                                   final_dosage = final, warnings = warnings_for medication\<rparr>)
                     | _ \<Rightarrow> Inl (InvalidFirstDose (type_name is_first_dose)))"

text \<open>Lines 166 to 168 and 181: the four assignments to the copy.\<close>

definition with_dosage :: "pydict \<Rightarrow> dosage \<Rightarrow> pydict" where
  "with_dosage d r =
     AList.update ''warnings'' (PList (warnings r))
       (AList.update ''final_dosage'' (of_num (final_dosage r))
         (AList.update ''loading_dose_applied'' (PBool (loading_dose_applied r))
           (AList.update ''base_dosage'' (of_num (base_dosage r)) d)))"

text \<open>\<^verbatim>\<open>calculate_dosage\<close> on values: the result is the copy with the four fields set.\<close>

definition calculate_dosage :: "pydict \<Rightarrow> error + pydict" where
  "calculate_dosage patient =
     (let patient_with_dosage = patient in
      case dosage_of patient of
        Inl e \<Rightarrow> Inl e
      | Inr r \<Rightarrow> Inr (with_dosage patient_with_dosage r))"

text \<open>
  \<^verbatim>\<open>calculate_all_dosages\<close>, lines 195 to 215. The total starts as the integer 0. For each
  patient the result of \<^verbatim>\<open>calculate_dosage\<close> is appended, then \<^verbatim>\<open>final_dosage\<close> is added
  to the total inside the \<^verbatim>\<open>if\<close> of line 208 and once more by line 212, which is
  outside the \<^verbatim>\<open>if\<close>/\<^verbatim>\<open>else\<close>. An exception of \<^verbatim>\<open>calculate_dosage\<close> ends the loop.
\<close>

definition add_to_total :: "pynum \<Rightarrow> pyval \<Rightarrow> error + pynum" where
  "add_to_total total_medication v =
     (case as_num v of None \<Rightarrow> Inl TypeError | Some x \<Rightarrow> num_add total_medication x)"

definition item :: "pydict \<Rightarrow> string \<Rightarrow> error + pyval" where
  "item d k = (case map_of d k of None \<Rightarrow> Inl (KeyError k) | Some v \<Rightarrow> Inr v)"

fun dosages_loop :: "pydict list \<Rightarrow> pydict list \<Rightarrow> pynum \<Rightarrow> error + (pydict list \<times> pynum)" where
  "dosages_loop [] patients_with_dosages total_medication =
     Inr (patients_with_dosages, total_medication)"
| "dosages_loop (patient # rest) patients_with_dosages total_medication =
     (case calculate_dosage patient of
        Inl e \<Rightarrow> Inl e
      | Inr patient_with_dosage \<Rightarrow>
          (case (if ''final_dosage'' \<in> dict_keys patient_with_dosage
                 then (case item patient_with_dosage ''final_dosage'' of
                         Inl e \<Rightarrow> Inl e
                       | Inr v \<Rightarrow> add_to_total total_medication v)
                 else Inr total_medication) of
             Inl e \<Rightarrow> Inl e
           | Inr total1 \<Rightarrow>
               (case item patient_with_dosage ''final_dosage'' of
                  Inl e \<Rightarrow> Inl e
                | Inr v \<Rightarrow>
                    (case add_to_total total1 v of
                       Inl e \<Rightarrow> Inl e
                     | Inr total2 \<Rightarrow>
                         dosages_loop rest (patients_with_dosages @ [patient_with_dosage])
                           total2))))"

definition calculate_all_dosages :: "pydict list \<Rightarrow> error + (pydict list \<times> pynum)" where
  "calculate_all_dosages patients = dosages_loop patients [] (NInt 0)"

text \<open>The sum of the \<^verbatim>\<open>final_dosage\<close> fields of a list of records, each counted once.\<close>

fun sum_final :: "pydict list \<Rightarrow> error + pynum" where
  "sum_final [] = Inr (NInt 0)"
| "sum_final (d # ds) =
     (case sum_final ds of
        Inl e \<Rightarrow> Inl e
      | Inr t \<Rightarrow> (case item d ''final_dosage'' of
                   Inl e \<Rightarrow> Inl e
                 | Inr v \<Rightarrow> add_to_total t v))"

subsection \<open>The calculator on a store of objects\<close>

text \<open>
  A Python dictionary is an object: \<^verbatim>\<open>patient.copy()\<close> makes a new one, and an
  assignment \<^verbatim>\<open>d[k] = v\<close> changes the object \<open>d\<close> refers to, for every holder of a
  reference. The store is the list of the allocated dictionaries and an address is a
  position in it; a reference held by a Python program is always to an allocated object,
  that is, below the length of the store. This is \<^verbatim>\<open>calculate_dosage\<close> statement by statement: the copy is
  allocated first, the reads go to \<^verbatim>\<open>patient\<close>, the four assignments to the copy.
\<close>

type_synonym store = "pydict list"

definition copy_obj :: "store \<Rightarrow> nat \<Rightarrow> nat \<times> store" where
  "copy_obj s a = (length s, s @ [s ! a])"

definition set_item :: "store \<Rightarrow> nat \<Rightarrow> string \<Rightarrow> pyval \<Rightarrow> store" where
  "set_item s a k v = s[a := AList.update k v (s ! a)]"

definition calculate_dosage_store :: "store \<Rightarrow> nat \<Rightarrow> error + (nat \<times> store)" where
  "calculate_dosage_store s patient =
     (let (patient_with_dosage, s1) = copy_obj s patient in
      case dosage_of (s1 ! patient) of
        Inl e \<Rightarrow> Inl e
      | Inr r \<Rightarrow>
          let s2 = set_item s1 patient_with_dosage ''base_dosage'' (of_num (base_dosage r));
              s3 = set_item s2 patient_with_dosage ''loading_dose_applied''
                     (PBool (loading_dose_applied r));
              s4 = set_item s3 patient_with_dosage ''final_dosage'' (of_num (final_dosage r));
              s5 = set_item s4 patient_with_dosage ''warnings'' (PList (warnings r))
          in Inr (patient_with_dosage, s5))"

text \<open>The test of line 125 on the value read at line 124.\<close>

definition invalid_weight :: "pyval \<Rightarrow> bool" where
  "invalid_weight weight =
     (weight = PNone \<or> (case as_num weight of None \<Rightarrow> True | Some w \<Rightarrow> num_le w (NInt 0)))"

text \<open>\<^verbatim>\<open>isinstance(x, bool)\<close>\<close>

fun is_bool :: "pyval \<Rightarrow> bool" where
  "is_bool (PBool b) = True"
| "is_bool _ = False"

text \<open>A number other than NaN and the infinities.\<close>

fun num_finite :: "pynum \<Rightarrow> bool" where
  "num_finite (NInt n) = True"
| "num_finite (NFloat (Finite q)) = True"
| "num_finite (NFloat f) = False"

text \<open>The four fields the calculator writes.\<close>

definition dosage_keys :: "string set" where
  "dosage_keys = {''base_dosage'', ''loading_dose_applied'', ''final_dosage'', ''warnings''}"

section \<open>The patient cleaner (\<^verbatim>\<open>1_patient_data_cleaner.py\<close>)\<close>

subsection \<open>\<^verbatim>\<open>str.title\<close> and \<^verbatim>\<open>int\<close>\<close>

definition is_upper :: "char \<Rightarrow> bool" where
  "is_upper c = (65 \<le> (of_char c :: nat) \<and> (of_char c :: nat) \<le> 90)"

definition is_lower :: "char \<Rightarrow> bool" where
  "is_lower c = (97 \<le> (of_char c :: nat) \<and> (of_char c :: nat) \<le> 122)"

definition to_upper :: "char \<Rightarrow> char" where
  "to_upper c = (if is_lower c then char_of ((of_char c :: nat) - 32) else c)"

definition to_lower :: "char \<Rightarrow> char" where
  "to_lower c = (if is_upper c then char_of ((of_char c :: nat) + 32) else c)"

text \<open>\<^verbatim>\<open>s.title()\<close>: a character that follows a cased character is lowered, any other
  is raised.\<close>

fun title_from :: "bool \<Rightarrow> string \<Rightarrow> string" where
  "title_from previous_is_cased [] = []"
| "title_from previous_is_cased (c # cs) =
     (if previous_is_cased then to_lower c else to_upper c)
       # title_from (is_upper c \<or> is_lower c) cs"

definition title :: "string \<Rightarrow> string" where
  "title s = title_from False s"

text \<open>
  \<^verbatim>\<open>int(s)\<close> on a string: surrounding whitespace is stripped, then an optional sign, then
  decimal digits, where single underscores may separate digits. Anything else is a
  \<^verbatim>\<open>ValueError\<close>. (The limit on the number of digits is not modelled.)
\<close>

definition is_space :: "char \<Rightarrow> bool" where
  "is_space c = ((of_char c :: nat) \<in> {9, 10, 11, 12, 13, 32})"

definition is_digit :: "char \<Rightarrow> bool" where
  "is_digit c = (48 \<le> (of_char c :: nat) \<and> (of_char c :: nat) \<le> 57)"

definition digit_val :: "char \<Rightarrow> nat" where
  "digit_val c = (of_char c :: nat) - 48"

definition strip :: "string \<Rightarrow> string" where
  "strip s = rev (dropWhile is_space (rev (dropWhile is_space s)))"

fun parse_digits :: "nat \<Rightarrow> string \<Rightarrow> nat option" where
  "parse_digits acc [] = Some acc"
| "parse_digits acc [c] = (if is_digit c then Some (10 * acc + digit_val c) else None)"
| "parse_digits acc (c # d # cs) =
     (if is_digit c then parse_digits (10 * acc + digit_val c) (d # cs)
      else if c = CHR ''_'' \<and> is_digit d then parse_digits (10 * acc + digit_val d) cs
      else None)"

definition parse_unsigned :: "string \<Rightarrow> nat option" where
  "parse_unsigned s =
     (case s of [] \<Rightarrow> None
      | c # cs \<Rightarrow> if is_digit c then parse_digits (digit_val c) cs else None)"

definition parse_int :: "string \<Rightarrow> int option" where
  "parse_int s =
     (case strip s of
        [] \<Rightarrow> None
      | c # cs \<Rightarrow>
          if c = CHR ''-'' then map_option (\<lambda>n. - int n) (parse_unsigned cs)
          else if c = CHR ''+'' then map_option int (parse_unsigned cs)
          else map_option int (parse_unsigned (c # cs)))"

text \<open>\<^verbatim>\<open>int(x)\<close> on a float truncates toward zero; NaN and the infinities raise.\<close>

fun float_to_int :: "pyfloat \<Rightarrow> error + int" where
  "float_to_int NaN = Inl ValueError"
| "float_to_int PosInf = Inl OverflowError"
| "float_to_int NegInf = Inl OverflowError"
| "float_to_int (Finite q) = Inr (if 0 \<le> q then \<lfloor>q\<rfloor> else \<lceil>q\<rceil>)"

fun py_int :: "pyval \<Rightarrow> error + int" where
  "py_int PNone = Inl TypeError"
| "py_int (PBool b) = Inr (if b then 1 else 0)"
| "py_int (PInt n) = Inr n"
| "py_int (PFloat f) = float_to_int f"
| "py_int (PStr s) = (case parse_int s of None \<Rightarrow> Inl ValueError | Some n \<Rightarrow> Inr n)"
| "py_int (PList xs) = Inl TypeError"
| "py_int (PDict d) = Inl TypeError"

subsection \<open>\<^verbatim>\<open>clean_patient_data\<close>\<close>

text \<open>\<^verbatim>\<open>x != x\<close> holds of a float NaN only.\<close>

definition ne_self :: "pyval \<Rightarrow> bool" where
  "ne_self v = (v = PFloat NaN)"

text \<open>Lines 88 to 91: the integer that is stored as \<^verbatim>\<open>patient['age']\<close>, or the exception
  of \<^verbatim>\<open>int\<close>.\<close>

definition coerce_age :: "pydict \<Rightarrow> error + int" where
  "coerce_age patient =
     (let age = dict_get_default patient ''age'' (PInt 0);
          age = (if ne_self age then PInt 0 else age)
      in py_int age)"

text \<open>Lines 84 to 91: the record after the two assignments. \<^verbatim>\<open>patient['name']\<close> raises
  \<^verbatim>\<open>KeyError\<close> when the key is absent, and only a string has \<^verbatim>\<open>title\<close>.\<close>

definition normalize :: "pydict \<Rightarrow> error + pydict" where
  "normalize patient =
     (case map_of patient ''name'' of
        None \<Rightarrow> Inl (KeyError ''name'')
      | Some (PStr s) \<Rightarrow>
          (let patient1 = AList.update ''name'' (PStr (title s)) patient in
           case coerce_age patient1 of
             Inl e \<Rightarrow> Inl e
           | Inr a \<Rightarrow> Inr (AList.update ''age'' (PInt a) patient1))
      | Some _ \<Rightarrow> Inl AttributeError)"

text \<open>\<^verbatim>\<open>patient['age'] >= 18\<close>\<close>

definition age_ge_18 :: "pydict \<Rightarrow> error + bool" where
  "age_ge_18 patient =
     (case item patient ''age'' of
        Inl e \<Rightarrow> Inl e
      | Inr v \<Rightarrow> (case as_num v of None \<Rightarrow> Inl TypeError | Some n \<Rightarrow> Inr (num_ge n (NInt 18))))"

text \<open>
  The loop of lines 82 to 106. The records are mutated in place; as each is changed only
  in its own iteration and before it is appended, the list of the records' final values is
  the result. \<open>seen\<close> is assigned the empty set in every iteration (line 95), so the test of
  line 97 is made against the empty set; testing membership hashes the key, which raises
  \<^verbatim>\<open>TypeError\<close> for an unhashable \<^verbatim>\<open>diagnosis\<close>. The record is appended at line 99 and
  again at line 105 when its age is at least 18.
\<close>

fun clean_loop :: "pydict list \<Rightarrow> pydict list \<Rightarrow> error + pydict list" where
  "clean_loop [] cleaned_patients = Inr cleaned_patients"
| "clean_loop (patient # rest) cleaned_patients =
     (case normalize patient of
        Inl e \<Rightarrow> Inl e
      | Inr patient \<Rightarrow>
          (let seen = [];
               key = (dict_get patient ''name'', dict_get patient ''age'',
                      dict_get patient ''diagnosis'')
           in if \<not> (hashable (fst key) \<and> hashable (fst (snd key)) \<and> hashable (snd (snd key)))
              then Inl TypeError
              else
                let cleaned1 = (if key \<notin> set seen then cleaned_patients @ [patient]
                                else cleaned_patients)
                in case age_ge_18 patient of
                     Inl e \<Rightarrow> Inl e
                   | Inr adult \<Rightarrow>
                       clean_loop rest (if adult then cleaned1 @ [patient] else cleaned1)))"

definition clean_patient_data :: "pydict list \<Rightarrow> error + pydict list" where
  "clean_patient_data patients =
     (case clean_loop patients [] of
        Inl e \<Rightarrow> Inl e
      | Inr cleaned_patients \<Rightarrow> if cleaned_patients = [] then Inr [] else Inr cleaned_patients)"

text \<open>The deduplication key of a cleaned record and its age.\<close>

definition key_of :: "pydict \<Rightarrow> pyval \<times> pyval \<times> pyval" where
  "key_of d = (dict_get d ''name'', dict_get d ''age'', dict_get d ''diagnosis'')"

section \<open>Properties of the dosage calculator\<close>

subsection \<open>Numbers\<close>

lemma float_limit_gt: "2 < float_limit"
  by (simp add: float_limit_def)

lemma float_result_zero: "float_result 0 = Finite 0"
  using float_limit_gt by (simp add: float_result_def)

lemma float_result_nonneg: "0 \<le> q \<Longrightarrow> float_result q = PosInf \<or> float_result q = Finite q"
  using float_limit_gt by (auto simp: float_result_def)

lemma to_float_zero: "to_float (NInt 0) = Inr (Finite 0)"
  using float_limit_gt by simp

lemma to_float_two: "to_float (NInt 2) = Inr (Finite 2)"
  using float_limit_gt by simp

lemma num_mul_two: "\<exists>y. num_mul b (NInt 2) = Inr y"
  using float_limit_gt by (cases b) simp_all

lemma of_num_eq_PFloat [simp]: "(PFloat f = of_num x) = (x = NFloat f)"
  by (cases x) auto

lemma of_num_eq_PInt [simp]: "(PInt n = of_num x) = (x = NInt n)"
  by (cases x) auto

subsection \<open>What \<^verbatim>\<open>calculate_dosage\<close> returns\<close>

text \<open>The definitions that evaluating \<^verbatim>\<open>calculate_dosage\<close> on a given record unfolds.\<close>

lemmas dosage_defs =
  calculate_dosage_def dosage_of_def with_dosage_def base_of_def factor_of_def
  DOSAGE_FACTORS_def in_loading_def LOADING_DOSE_MEDICATIONS_def warnings_for_def
  dict_get_def dict_get_default_def float_result_def float_limit_def invalid_weight_def

lemma dosage_of_Inr:
  assumes "dosage_of p = Inr r"
  shows "\<exists>w first.
           as_num (dict_get p ''weight'') = Some w \<and> \<not> num_le w (NInt 0) \<and>
           truthy (dict_get p ''medication'') \<and>
           base_of w (dict_get p ''medication'') = Inr (base_dosage r) \<and>
           dict_get_default p ''is_first_dose'' (PBool False) = PBool first \<and>
           loading_dose_applied r = (first \<and> in_loading (dict_get p ''medication'')) \<and>
           (if loading_dose_applied r then num_mul (base_dosage r) (NInt 2)
            else Inr (base_dosage r)) = Inr (final_dosage r) \<and>
           warnings r = warnings_for (dict_get p ''medication'')"
  using assms unfolding dosage_of_def Let_def
  by (auto split: option.splits sum.splits pyval.splits if_splits)

lemma dosage_of_accepts:
  assumes "as_num (dict_get p ''weight'') = Some w" and "\<not> num_le w (NInt 0)"
    and "truthy (dict_get p ''medication'')"
    and "base_of w (dict_get p ''medication'') = Inr base"
    and "dict_get_default p ''is_first_dose'' (PBool False) = PBool first"
    and "(if first \<and> in_loading (dict_get p ''medication'') then num_mul base (NInt 2)
          else Inr base) = Inr final"
  shows "dosage_of p =
           Inr \<lparr>base_dosage = base,
                loading_dose_applied = (first \<and> in_loading (dict_get p ''medication'')),
                final_dosage = final,
                warnings = warnings_for (dict_get p ''medication'')\<rparr>"
proof -
  have "dict_get p ''weight'' \<noteq> PNone"
    using assms(1) by auto
  with assms show ?thesis
    unfolding dosage_of_def Let_def by (simp split: if_splits)
qed

lemma map_of_with_dosage:
  "map_of (with_dosage d r) =
     (map_of d)(''base_dosage'' \<mapsto> of_num (base_dosage r),
                ''loading_dose_applied'' \<mapsto> PBool (loading_dose_applied r),
                ''final_dosage'' \<mapsto> of_num (final_dosage r),
                ''warnings'' \<mapsto> PList (warnings r))"
  by (simp add: with_dosage_def update_conv')

lemma dict_keys_dom: "dict_keys d = dom (map_of d)"
  by (simp add: dict_keys_def dom_map_of_conv_image_fst)

lemma dict_keys_with_dosage: "dict_keys (with_dosage d r) = dict_keys d \<union> dosage_keys"
  by (auto simp: dict_keys_dom map_of_with_dosage dosage_keys_def)

lemma factor_of_nonneg:
  assumes "factor_of m = Inr f"
  shows "f = NInt 0 \<or> (\<exists>q. f = NFloat (Finite q) \<and> 0 < q)"
  using assms unfolding factor_of_def DOSAGE_FACTORS_def
  by (auto split: if_splits pyval.splits option.splits)

lemma calculate_dosage_Inr:
  assumes "calculate_dosage p = Inr out"
  shows "\<exists>r. dosage_of p = Inr r \<and> out = with_dosage p r"
  using assms unfolding calculate_dosage_def Let_def
  by (auto split: sum.splits)

lemma calculate_dosage_Inl: "dosage_of p = Inl e \<Longrightarrow> calculate_dosage p = Inl e"
  by (simp add: calculate_dosage_def)

lemma first_dose_read:
  "dict_get_default p ''is_first_dose'' (PBool False) = PBool first \<Longrightarrow>
   (dict_get p ''is_first_dose'' = PBool True) = first"
  by (auto simp: dict_get_def dict_get_default_def split: option.splits)

subsection \<open>Loading dose\<close>

text \<open>
  C5. Whenever \<^verbatim>\<open>calculate_dosage\<close> returns a record, that record has
  \<^verbatim>\<open>loading_dose_applied\<close> true and \<^verbatim>\<open>final_dosage = base_dosage * 2\<close> if
  \<^verbatim>\<open>is_first_dose\<close> is true and the medication is in \<^verbatim>\<open>LOADING_DOSE_MEDICATIONS\<close>, and
  otherwise \<^verbatim>\<open>loading_dose_applied\<close> false and \<^verbatim>\<open>final_dosage = base_dosage\<close>; so the
  flag is true exactly in the first case. For weight 70, amiodarone and a first dose the
  result has base dosage 350.0, final dosage 700.0 and the flag true.
\<close>

theorem loading_dose_rule:
  "(calculate_dosage p = Inr out \<longrightarrow>
      (\<exists>base final.
         map_of out ''base_dosage'' = Some (of_num base) \<and>
         map_of out ''final_dosage'' = Some (of_num final) \<and>
         (if dict_get p ''is_first_dose'' = PBool True \<and> in_loading (dict_get p ''medication'')
          then map_of out ''loading_dose_applied'' = Some (PBool True) \<and>
               num_mul base (NInt 2) = Inr final
          else map_of out ''loading_dose_applied'' = Some (PBool False) \<and> final = base)))
   \<and> calculate_dosage
        [(''weight'', PInt 70), (''medication'', PStr ''amiodarone''),
         (''is_first_dose'', PBool True)] =
       Inr [(''weight'', PInt 70), (''medication'', PStr ''amiodarone''),
            (''is_first_dose'', PBool True), (''base_dosage'', PFloat (Finite 350)),
            (''loading_dose_applied'', PBool True), (''final_dosage'', PFloat (Finite 700)),
            (''warnings'', PList [PStr ''Monitor for hypotension''])]"
proof (intro conjI impI)
  assume "calculate_dosage p = Inr out"
  then obtain r where r: "dosage_of p = Inr r" and out: "out = with_dosage p r"
    using calculate_dosage_Inr by blast
  from dosage_of_Inr [OF r] obtain first where
    fd: "dict_get_default p ''is_first_dose'' (PBool False) = PBool first" and
    ld: "loading_dose_applied r = (first \<and> in_loading (dict_get p ''medication''))" and
    fin: "(if loading_dose_applied r then num_mul (base_dosage r) (NInt 2)
           else Inr (base_dosage r)) = Inr (final_dosage r)"
    by blast
  have "(dict_get p ''is_first_dose'' = PBool True) = first"
    using fd by (rule first_dose_read)
  with ld fin show "\<exists>base final.
         map_of out ''base_dosage'' = Some (of_num base) \<and>
         map_of out ''final_dosage'' = Some (of_num final) \<and>
         (if dict_get p ''is_first_dose'' = PBool True \<and> in_loading (dict_get p ''medication'')
          then map_of out ''loading_dose_applied'' = Some (PBool True) \<and>
               num_mul base (NInt 2) = Inr final
          else map_of out ''loading_dose_applied'' = Some (PBool False) \<and> final = base)"
    unfolding out
    by (intro exI [of _ "base_dosage r"] exI [of _ "final_dosage r"])
       (auto simp: map_of_with_dosage split: if_splits)
next
  show "calculate_dosage
        [(''weight'', PInt 70), (''medication'', PStr ''amiodarone''),
         (''is_first_dose'', PBool True)] =
       Inr [(''weight'', PInt 70), (''medication'', PStr ''amiodarone''),
            (''is_first_dose'', PBool True), (''base_dosage'', PFloat (Finite 350)),
            (''loading_dose_applied'', PBool True), (''final_dosage'', PFloat (Finite 700)),
            (''warnings'', PList [PStr ''Monitor for hypotension''])]"
    by (simp add: dosage_defs)
qed

theorem loading_dose_rule_witness:
  "calculate_dosage
     [(''weight'', PInt 70), (''medication'', PStr ''amiodarone''),
      (''is_first_dose'', PBool True)] =
    Inr [(''weight'', PInt 70), (''medication'', PStr ''amiodarone''),
         (''is_first_dose'', PBool True), (''base_dosage'', PFloat (Finite 350)),
         (''loading_dose_applied'', PBool True), (''final_dosage'', PFloat (Finite 700)),
         (''warnings'', PList [PStr ''Monitor for hypotension''])]
   \<and> num_mul (NFloat (Finite 350)) (NInt 2) = Inr (NFloat (Finite 700))"
proof -
  let ?p = "[(''weight'', PInt 70), (''medication'', PStr ''amiodarone''),
             (''is_first_dose'', PBool True)]"
  let ?out = "[(''weight'', PInt 70), (''medication'', PStr ''amiodarone''),
         (''is_first_dose'', PBool True), (''base_dosage'', PFloat (Finite 350)),
         (''loading_dose_applied'', PBool True), (''final_dosage'', PFloat (Finite 700)),
         (''warnings'', PList [PStr ''Monitor for hypotension''])]"
  have run: "calculate_dosage ?p = Inr ?out"
    by (simp add: dosage_defs)
  have cond: "dict_get ?p ''is_first_dose'' = PBool True \<and> in_loading (dict_get ?p ''medication'')"
    by (simp add: dosage_defs)
  from loading_dose_rule [of ?p ?out] run cond
  have "\<exists>base final.
         map_of ?out ''base_dosage'' = Some (of_num base) \<and>
         map_of ?out ''final_dosage'' = Some (of_num final) \<and>
         num_mul base (NInt 2) = Inr final"
    by auto
  then have "num_mul (NFloat (Finite 350)) (NInt 2) = Inr (NFloat (Finite 700))"
    by auto
  with run show ?thesis by blast
qed

subsection \<open>Fentanyl\<close>

text \<open>
  C10. Whenever \<^verbatim>\<open>calculate_dosage\<close> returns a record for a patient whose medication
  is exactly \<^verbatim>\<open>"fentanyl"\<close>, \<^verbatim>\<open>loading_dose_applied\<close> is false and \<^verbatim>\<open>final_dosage\<close> is
  \<^verbatim>\<open>base_dosage\<close>, whatever \<^verbatim>\<open>is_first_dose\<close> is, because \<^verbatim>\<open>LOADING_DOSE_MEDICATIONS\<close>
  holds the spelling \<^verbatim>\<open>"fentynal"\<close> and not \<^verbatim>\<open>"fentanyl"\<close>; the warning about respiratory
  depression is attached all the same. The witness is a first dose.
\<close>

theorem fentanyl_not_loaded:
  assumes "calculate_dosage p = Inr out"
    and "dict_get p ''medication'' = PStr ''fentanyl''"
  shows "map_of out ''loading_dose_applied'' = Some (PBool False) \<and>
         map_of out ''final_dosage'' = map_of out ''base_dosage'' \<and>
         map_of out ''warnings'' = Some (PList [PStr ''Monitor for respiratory depression'']) \<and>
         ''fentanyl'' \<notin> set LOADING_DOSE_MEDICATIONS \<and>
         ''fentynal'' \<in> set LOADING_DOSE_MEDICATIONS"
proof -
  obtain r where r: "dosage_of p = Inr r" and out: "out = with_dosage p r"
    using assms(1) calculate_dosage_Inr by blast
  have nl: "\<not> in_loading (PStr ''fentanyl'')"
    by (simp add: in_loading_def LOADING_DOSE_MEDICATIONS_def)
  have w: "warnings_for (PStr ''fentanyl'') = [PStr ''Monitor for respiratory depression'']"
    by (simp add: warnings_for_def)
  from dosage_of_Inr [OF r] assms(2) nl w
  have "loading_dose_applied r = False" "final_dosage r = base_dosage r"
    "warnings r = [PStr ''Monitor for respiratory depression'']"
    by auto
  then show ?thesis
    unfolding out by (simp add: map_of_with_dosage LOADING_DOSE_MEDICATIONS_def)
qed

theorem fentanyl_not_loaded_witness:
  "calculate_dosage
     [(''weight'', PInt 80), (''medication'', PStr ''fentanyl''), (''is_first_dose'', PBool True)] =
    Inr [(''weight'', PInt 80), (''medication'', PStr ''fentanyl''),
         (''is_first_dose'', PBool True), (''base_dosage'', PFloat (Finite (8 / 100))),
         (''loading_dose_applied'', PBool False), (''final_dosage'', PFloat (Finite (8 / 100))),
         (''warnings'', PList [PStr ''Monitor for respiratory depression''])]
   \<and> map_of [(''weight'', PInt 80), (''medication'', PStr ''fentanyl''),
         (''is_first_dose'', PBool True), (''base_dosage'', PFloat (Finite (8 / 100))),
         (''loading_dose_applied'', PBool False), (''final_dosage'', PFloat (Finite (8 / 100))),
         (''warnings'', PList [PStr ''Monitor for respiratory depression''])]
        ''loading_dose_applied'' = Some (PBool False)"
proof -
  let ?p = "[(''weight'', PInt 80), (''medication'', PStr ''fentanyl''),
             (''is_first_dose'', PBool True)]"
  let ?out = "[(''weight'', PInt 80), (''medication'', PStr ''fentanyl''),
         (''is_first_dose'', PBool True), (''base_dosage'', PFloat (Finite (8 / 100))),
         (''loading_dose_applied'', PBool False), (''final_dosage'', PFloat (Finite (8 / 100))),
         (''warnings'', PList [PStr ''Monitor for respiratory depression''])]"
  have run: "calculate_dosage ?p = Inr ?out"
    by (simp add: dosage_defs)
  have med: "dict_get ?p ''medication'' = PStr ''fentanyl''"
    by (simp add: dosage_defs)
  from fentanyl_not_loaded [OF run med] run show ?thesis
    by blast
qed

subsection \<open>The final dosage is at least the base dosage\<close>

lemma float_mul_nonneg:
  assumes "0 \<le> a" and "0 \<le> b"
  shows "float_mul (Finite a) (Finite b) = PosInf \<or>
         (\<exists>q. float_mul (Finite a) (Finite b) = Finite q \<and> 0 \<le> q)"
proof -
  have "0 \<le> a * b" using assms by simp
  from float_result_nonneg [OF this] this show ?thesis by auto
qed

lemma base_dosage_cases:
  assumes "\<not> num_le w (NInt 0)"
    and "f = NInt 0 \<or> (\<exists>q. f = NFloat (Finite q) \<and> 0 < q)"
    and "num_mul w f = Inr b"
  shows "b = NFloat NaN \<or> b = NFloat PosInf \<or> (\<exists>n. b = NInt n \<and> 0 \<le> n) \<or>
         (\<exists>q. b = NFloat (Finite q) \<and> 0 \<le> q)"
proof -
  from assms(2) obtain y where
    fy: "to_float f = Inr (Finite y)" and y: "0 \<le> y" and fint: "f = NInt 0 \<or> (\<exists>q. f = NFloat q)"
    using to_float_zero by auto
  show ?thesis
  proof (cases w)
    case (NInt a)
    show ?thesis
    proof (cases "f = NInt 0")
      case True
      with NInt assms(3) show ?thesis by auto
    next
      case False
      with fint obtain q where q: "f = NFloat q" by blast
      with NInt assms(1,3) fy have
        "b = NFloat (float_mul (Finite (of_int a)) (Finite y))" and "0 \<le> (of_int a :: rat)"
        by (auto split: if_splits)
      with float_mul_nonneg [OF this(2) y] show ?thesis by auto
    qed
  next
    case (NFloat x)
    with assms(3) fy fint have b: "b = NFloat (float_mul x (Finite y))"
      by auto
    show ?thesis
    proof (cases x)
      case (Finite a)
      with NFloat assms(1) have "0 \<le> a" by simp
      from float_mul_nonneg [OF this y] b Finite show ?thesis by auto
    qed (use NFloat assms(1) b y in auto)
  qed
qed

lemma double_ge:
  assumes "b = NFloat PosInf \<or> (\<exists>n. b = NInt n \<and> 0 \<le> n) \<or> (\<exists>q. b = NFloat (Finite q) \<and> 0 \<le> q)"
  shows "num_mul b (NInt 2) = Inr d \<Longrightarrow> num_ge d b" and "num_ge b b"
proof -
  show "num_ge b b"
    using assms by (auto simp: num_ge_def)
  assume d: "num_mul b (NInt 2) = Inr d"
  from assms consider "b = NFloat PosInf" | n where "b = NInt n" "0 \<le> n"
    | q where "b = NFloat (Finite q)" "0 \<le> q"
    by blast
  then show "num_ge d b"
  proof cases
    case 1
    with d float_limit_gt show ?thesis by (auto simp: num_ge_def)
  next
    case 2
    with d show ?thesis by (auto simp: num_ge_def)
  next
    case 3
    with d float_limit_gt have dd: "d = NFloat (float_result (q * 2))"
      by auto
    from 3 have "0 \<le> q * 2" by simp
    from float_result_nonneg [OF this] 3 dd show ?thesis
      by (auto simp: num_ge_def)
  qed
qed

text \<open>
  C8, as amended. Whenever \<^verbatim>\<open>calculate_dosage\<close> returns a record whose \<^verbatim>\<open>base_dosage\<close> is
  not NaN, \<^verbatim>\<open>final_dosage >= base_dosage\<close> holds of it; and \<^verbatim>\<open>loading_dose_applied\<close> is
  true only if \<^verbatim>\<open>is_first_dose\<close> is true and the medication is in
  \<^verbatim>\<open>LOADING_DOSE_MEDICATIONS\<close>.
\<close>

theorem final_ge_base:
  assumes "calculate_dosage p = Inr out"
  shows "\<exists>base final applied.
           map_of out ''base_dosage'' = Some (of_num base) \<and>
           map_of out ''final_dosage'' = Some (of_num final) \<and>
           map_of out ''loading_dose_applied'' = Some (PBool applied) \<and>
           (base \<noteq> NFloat NaN \<longrightarrow> num_ge final base) \<and>
           (applied \<longrightarrow> dict_get p ''is_first_dose'' = PBool True \<and>
                         in_loading (dict_get p ''medication''))"
proof -
  obtain r where r: "dosage_of p = Inr r" and out: "out = with_dosage p r"
    using assms calculate_dosage_Inr by blast
  from dosage_of_Inr [OF r] obtain w first where
    pos: "\<not> num_le w (NInt 0)" and
    base: "base_of w (dict_get p ''medication'') = Inr (base_dosage r)" and
    fd: "dict_get_default p ''is_first_dose'' (PBool False) = PBool first" and
    ld: "loading_dose_applied r = (first \<and> in_loading (dict_get p ''medication''))" and
    fin: "(if loading_dose_applied r then num_mul (base_dosage r) (NInt 2)
           else Inr (base_dosage r)) = Inr (final_dosage r)"
    by blast
  from base obtain f where
    fac: "factor_of (dict_get p ''medication'') = Inr f" and
    prod: "num_mul w f = Inr (base_dosage r)"
    by (auto simp: base_of_def split: sum.splits)
  have first: "(dict_get p ''is_first_dose'' = PBool True) = first"
    using fd by (rule first_dose_read)
  have ge: "base_dosage r \<noteq> NFloat NaN \<longrightarrow> num_ge (final_dosage r) (base_dosage r)"
  proof
    assume nn: "base_dosage r \<noteq> NFloat NaN"
    from base_dosage_cases [OF pos factor_of_nonneg [OF fac] prod] nn
    have c: "base_dosage r = NFloat PosInf \<or> (\<exists>n. base_dosage r = NInt n \<and> 0 \<le> n) \<or>
             (\<exists>q. base_dosage r = NFloat (Finite q) \<and> 0 \<le> q)"
      by simp
    show "num_ge (final_dosage r) (base_dosage r)"
    proof (cases "loading_dose_applied r")
      case True
      with fin have "num_mul (base_dosage r) (NInt 2) = Inr (final_dosage r)" by simp
      with c show ?thesis by (rule double_ge(1))
    next
      case False
      with fin have "final_dosage r = base_dosage r" by simp
      with double_ge(2) [OF c] show ?thesis by simp
    qed
  qed
  have ap: "loading_dose_applied r \<longrightarrow>
              dict_get p ''is_first_dose'' = PBool True \<and> in_loading (dict_get p ''medication'')"
    using first ld by simp
  show ?thesis
    unfolding out
    by (intro exI [of _ "base_dosage r"] exI [of _ "final_dosage r"]
          exI [of _ "loading_dose_applied r"])
       (use ge ap in \<open>simp add: map_of_with_dosage\<close>)
qed

theorem final_ge_base_witness:
  "calculate_dosage
     [(''weight'', PFloat (Finite 70)), (''medication'', PStr ''amiodarone''),
      (''is_first_dose'', PBool True)] =
    Inr [(''weight'', PFloat (Finite 70)), (''medication'', PStr ''amiodarone''),
         (''is_first_dose'', PBool True), (''base_dosage'', PFloat (Finite 350)),
         (''loading_dose_applied'', PBool True), (''final_dosage'', PFloat (Finite 700)),
         (''warnings'', PList [PStr ''Monitor for hypotension''])]
   \<and> num_ge (NFloat (Finite 700)) (NFloat (Finite 350))"
proof -
  let ?p = "[(''weight'', PFloat (Finite 70)), (''medication'', PStr ''amiodarone''),
             (''is_first_dose'', PBool True)]"
  let ?out = "[(''weight'', PFloat (Finite 70)), (''medication'', PStr ''amiodarone''),
         (''is_first_dose'', PBool True), (''base_dosage'', PFloat (Finite 350)),
         (''loading_dose_applied'', PBool True), (''final_dosage'', PFloat (Finite 700)),
         (''warnings'', PList [PStr ''Monitor for hypotension''])]"
  have run: "calculate_dosage ?p = Inr ?out"
    by (simp add: dosage_defs)
  from final_ge_base [OF run] obtain base final where
    "map_of ?out ''base_dosage'' = Some (of_num base)"
    "map_of ?out ''final_dosage'' = Some (of_num final)"
    "base \<noteq> NFloat NaN \<longrightarrow> num_ge final base"
    by blast
  moreover from this have "base = NFloat (Finite 350)" "final = NFloat (Finite 700)"
    by simp_all
  ultimately show ?thesis using run by simp
qed

text \<open>
  The weight NaN passes the test of line 125, since \<^verbatim>\<open>nan <= 0\<close> is false. Both dosages
  are then NaN, and \<^verbatim>\<open>nan >= nan\<close> is false.
\<close>

theorem final_ge_base_counterexample:
  "calculate_dosage
     [(''weight'', PFloat NaN), (''medication'', PStr ''amiodarone''),
      (''is_first_dose'', PBool False)] =
    Inr [(''weight'', PFloat NaN), (''medication'', PStr ''amiodarone''),
         (''is_first_dose'', PBool False), (''base_dosage'', PFloat NaN),
         (''loading_dose_applied'', PBool False), (''final_dosage'', PFloat NaN),
         (''warnings'', PList [PStr ''Monitor for hypotension''])]
   \<and> \<not> num_ge (NFloat NaN) (NFloat NaN)"
  by (simp add: dosage_defs num_ge_def)

subsection \<open>Medications that are not in the factor table\<close>

lemma factor_of_unknown:
  assumes "hashable m" and "m \<notin> PStr ` fst ` set DOSAGE_FACTORS"
  shows "factor_of m = Inr (NInt 0)"
proof (cases m)
  case (PStr s)
  with assms(2) have "s \<notin> fst ` set DOSAGE_FACTORS" by blast
  then have "map_of DOSAGE_FACTORS s = None"
    by (simp add: map_of_eq_None_iff)
  with PStr show ?thesis by (simp add: factor_of_def)
qed (use assms(1) in \<open>simp_all add: factor_of_def\<close>)

lemma finite_times_zero:
  assumes "num_finite w"
  shows "\<exists>b. num_mul w (NInt 0) = Inr b \<and> num_is_zero b \<and>
             (\<exists>d. num_mul b (NInt 2) = Inr d \<and> num_is_zero d)"
  using assms float_limit_gt
  by (induction w rule: num_finite.induct) (simp_all add: float_result_zero)

text \<open>
  C7, as amended. For every record whose weight is a finite number greater than 0, whose
  medication is truthy, hashable (not a list or a dictionary) and not a key of
  \<^verbatim>\<open>DOSAGE_FACTORS\<close>, and whose \<^verbatim>\<open>is_first_dose\<close> is a boolean or absent,
  \<^verbatim>\<open>calculate_dosage\<close> does not raise: the factor is the default 0, and \<^verbatim>\<open>base_dosage\<close>
  and \<^verbatim>\<open>final_dosage\<close> of the result are zero.
\<close>

theorem unknown_medication_zero:
  assumes "as_num (dict_get p ''weight'') = Some w" and "\<not> num_le w (NInt 0)"
    and "num_finite w"
    and "truthy (dict_get p ''medication'')"
    and "hashable (dict_get p ''medication'')"
    and "dict_get p ''medication'' \<notin> PStr ` fst ` set DOSAGE_FACTORS"
    and "dict_get_default p ''is_first_dose'' (PBool False) = PBool first"
  shows "factor_of (dict_get p ''medication'') = Inr (NInt 0) \<and>
         (\<exists>out base final.
            calculate_dosage p = Inr out \<and>
            map_of out ''base_dosage'' = Some (of_num base) \<and> num_is_zero base \<and>
            map_of out ''final_dosage'' = Some (of_num final) \<and> num_is_zero final)"
proof -
  let ?m = "dict_get p ''medication''"
  have fac: "factor_of ?m = Inr (NInt 0)"
    using assms(5,6) by (rule factor_of_unknown)
  from finite_times_zero [OF assms(3)] obtain b d where
    b: "num_mul w (NInt 0) = Inr b" "num_is_zero b" and
    d: "num_mul b (NInt 2) = Inr d" "num_is_zero d"
    by blast
  have base: "base_of w ?m = Inr b"
    using fac b(1) by (simp add: base_of_def)
  define final where "final = (if first \<and> in_loading ?m then d else b)"
  have fin: "(if first \<and> in_loading ?m then num_mul b (NInt 2) else Inr b) = Inr final"
    using d(1) by (simp add: final_def)
  let ?r = "\<lparr>base_dosage = b, loading_dose_applied = (first \<and> in_loading ?m),
             final_dosage = final, warnings = warnings_for ?m\<rparr>"
  have "dosage_of p = Inr ?r"
    using assms(1,2,4) base assms(7) fin by (rule dosage_of_accepts)
  then have run: "calculate_dosage p = Inr (with_dosage p ?r)"
    by (simp add: calculate_dosage_def)
  have z: "num_is_zero (base_dosage ?r)" "num_is_zero (final_dosage ?r)"
    using b(2) d(2) by (simp_all add: final_def)
  have "\<exists>out base final.
            calculate_dosage p = Inr out \<and>
            map_of out ''base_dosage'' = Some (of_num base) \<and> num_is_zero base \<and>
            map_of out ''final_dosage'' = Some (of_num final) \<and> num_is_zero final"
    by (intro exI [of _ "with_dosage p ?r"] exI [of _ "base_dosage ?r"]
          exI [of _ "final_dosage ?r"])
       (use run z in \<open>simp add: map_of_with_dosage\<close>)
  with fac show ?thesis by blast
qed

theorem unknown_medication_zero_witness:
  "calculate_dosage
     [(''weight'', PFloat (Finite 70)), (''medication'', PStr ''aspirin''),
      (''is_first_dose'', PBool True)] =
   Inr [(''weight'', PFloat (Finite 70)), (''medication'', PStr ''aspirin''),
        (''is_first_dose'', PBool True), (''base_dosage'', PFloat (Finite 0)),
        (''loading_dose_applied'', PBool False), (''final_dosage'', PFloat (Finite 0)),
        (''warnings'', PList [])]
   \<and> factor_of (PStr ''aspirin'') = Inr (NInt 0)"
proof -
  let ?p = "[(''weight'', PFloat (Finite 70)), (''medication'', PStr ''aspirin''),
             (''is_first_dose'', PBool True)]"
  have m: "dict_get ?p ''medication'' = PStr ''aspirin''"
    by (simp add: dosage_defs)
  have h1: "as_num (dict_get ?p ''weight'') = Some (NFloat (Finite 70))"
    by (simp add: dosage_defs)
  have h2: "\<not> num_le (NFloat (Finite 70)) (NInt 0)"
    by simp
  have h3: "num_finite (NFloat (Finite 70))"
    by simp
  have h4: "truthy (dict_get ?p ''medication'')"
    by (simp add: dosage_defs)
  have h5: "hashable (dict_get ?p ''medication'')"
    by (simp add: dosage_defs)
  have h6: "dict_get ?p ''medication'' \<notin> PStr ` fst ` set DOSAGE_FACTORS"
    unfolding m by (simp add: DOSAGE_FACTORS_def)
  have h7: "dict_get_default ?p ''is_first_dose'' (PBool False) = PBool True"
    by (simp add: dosage_defs)
  have run: "calculate_dosage ?p =
   Inr [(''weight'', PFloat (Finite 70)), (''medication'', PStr ''aspirin''),
        (''is_first_dose'', PBool True), (''base_dosage'', PFloat (Finite 0)),
        (''loading_dose_applied'', PBool False), (''final_dosage'', PFloat (Finite 0)),
        (''warnings'', PList [])]"
    by (simp add: dosage_defs)
  from unknown_medication_zero [OF h1 h2 h3 h4 h5 h6 h7] run show ?thesis
    unfolding m by blast
qed

text \<open>
  An infinite weight passes the test of line 125, and \<^verbatim>\<open>inf * 0\<close> is NaN, not 0. A
  non-empty list as medication passes the test of line 131, and the lookup of line 137
  raises \<^verbatim>\<open>TypeError\<close>, as a list cannot be hashed.
\<close>

theorem unknown_medication_zero_counterexample:
  "calculate_dosage
     [(''weight'', PFloat PosInf), (''medication'', PStr ''aspirin''),
      (''is_first_dose'', PBool False)] =
   Inr [(''weight'', PFloat PosInf), (''medication'', PStr ''aspirin''),
        (''is_first_dose'', PBool False), (''base_dosage'', PFloat NaN),
        (''loading_dose_applied'', PBool False), (''final_dosage'', PFloat NaN),
        (''warnings'', PList [])]
   \<and> \<not> num_is_zero (NFloat NaN)
   \<and> \<not> invalid_weight (PFloat PosInf)
   \<and> map_of DOSAGE_FACTORS ''aspirin'' = None
   \<and> calculate_dosage
     [(''weight'', PInt 70), (''medication'', PList [PStr ''aspirin'']),
      (''is_first_dose'', PBool False)] = Inl TypeError
   \<and> truthy (PList [PStr ''aspirin''])"
  by (simp add: dosage_defs)

subsection \<open>Validation\<close>

lemma factors_are_floats: "\<forall>kf \<in> set DOSAGE_FACTORS. \<exists>x. snd kf = NFloat x"
  by (simp add: DOSAGE_FACTORS_def)

lemma factor_of_known:
  assumes "s \<in> fst ` set DOSAGE_FACTORS"
  shows "\<exists>x. factor_of (PStr s) = Inr (NFloat x)"
proof -
  from assms obtain f where f: "map_of DOSAGE_FACTORS s = Some f"
    by (cases "map_of DOSAGE_FACTORS s") (auto simp: map_of_eq_None_iff)
  then have "(s, f) \<in> set DOSAGE_FACTORS"
    by (rule map_of_SomeD)
  with factors_are_floats obtain x where "f = NFloat x"
    by fastforce
  with f show ?thesis
    by (simp add: factor_of_def)
qed

lemma num_mul_zero_Inr: "\<exists>b. num_mul w (NInt 0) = Inr b"
  using float_limit_gt by (cases w) simp_all

text \<open>
  The factor lookup and the product raise in two cases only: \<^verbatim>\<open>TypeError\<close> for an
  unhashable medication, and \<^verbatim>\<open>OverflowError\<close> when the medication is in the table and the
  weight is an integer too large to convert to a float.
\<close>

lemma base_of_Inl:
  "base_of w m = Inl e \<longleftrightarrow>
     (\<not> hashable m \<and> e = TypeError) \<or>
     (e = OverflowError \<and>
      (\<exists>n s. w = NInt n \<and> float_limit \<le> \<bar>of_int n\<bar> \<and> m = PStr s \<and>
             s \<in> fst ` set DOSAGE_FACTORS))"
proof (cases "hashable m")
  case False
  then have "base_of w m = Inl TypeError"
    by (simp add: base_of_def factor_of_def)
  moreover from False have "\<forall>s. m \<noteq> PStr s" by auto
  ultimately show ?thesis using False by auto
next
  case True
  show ?thesis
  proof (cases "m \<in> PStr ` fst ` set DOSAGE_FACTORS")
    case False
    with True have "factor_of m = Inr (NInt 0)" by (rule factor_of_unknown)
    then have "\<exists>b. base_of w m = Inr b"
      using num_mul_zero_Inr by (simp add: base_of_def)
    moreover from False have "\<forall>s. m = PStr s \<longrightarrow> s \<notin> fst ` set DOSAGE_FACTORS" by blast
    ultimately show ?thesis using True by auto
  next
    case key: True
    then obtain s where s: "m = PStr s" "s \<in> fst ` set DOSAGE_FACTORS" by blast
    from factor_of_known [OF s(2)] obtain x where "factor_of m = Inr (NFloat x)"
      using s(1) by blast
    then have "(base_of w m = Inl e) =
                 (e = OverflowError \<and> (\<exists>n. w = NInt n \<and> float_limit \<le> \<bar>of_int n\<bar>))"
      by (cases w) (auto simp: base_of_def)
    then show ?thesis
      using s True by auto
  qed
qed

lemma dosage_of_weight:
  "invalid_weight (dict_get p ''weight'') \<Longrightarrow> dosage_of p = Inl (InvalidWeight p)"
  unfolding dosage_of_def invalid_weight_def Let_def
  by (auto split: option.splits)

lemma dosage_of_medication:
  "\<not> invalid_weight (dict_get p ''weight'') \<Longrightarrow> \<not> truthy (dict_get p ''medication'') \<Longrightarrow>
   dosage_of p = Inl (MissingMedication p)"
  unfolding dosage_of_def invalid_weight_def Let_def
  by (auto split: option.splits)

lemma dosage_of_base:
  "\<not> invalid_weight (dict_get p ''weight'') \<Longrightarrow> truthy (dict_get p ''medication'') \<Longrightarrow>
   as_num (dict_get p ''weight'') = Some w \<Longrightarrow> base_of w (dict_get p ''medication'') = Inl e \<Longrightarrow>
   dosage_of p = Inl e"
  unfolding dosage_of_def invalid_weight_def Let_def
  by (auto split: option.splits)

lemma dosage_of_first_dose:
  assumes "\<not> invalid_weight (dict_get p ''weight'')" and "truthy (dict_get p ''medication'')"
    and "as_num (dict_get p ''weight'') = Some w"
    and "base_of w (dict_get p ''medication'') = Inr b"
    and "dict_get_default p ''is_first_dose'' (PBool False) = fd"
  shows "fd = PNone \<Longrightarrow> dosage_of p = Inl (MissingFirstDose p)"
    and "fd \<noteq> PNone \<Longrightarrow> \<not> is_bool fd \<Longrightarrow> dosage_of p = Inl (InvalidFirstDose (type_name fd))"
    and "is_bool fd \<Longrightarrow> \<exists>r. dosage_of p = Inr r"
proof -
  have w: "\<not> num_le w (NInt 0)" "dict_get p ''weight'' \<noteq> PNone"
    using assms(1,3) by (auto simp: invalid_weight_def)
  obtain d where d: "num_mul b (NInt 2) = Inr d"
    using num_mul_two by blast
  show "fd = PNone \<Longrightarrow> dosage_of p = Inl (MissingFirstDose p)"
    using w assms(2-5) unfolding dosage_of_def Let_def by simp
  show "fd \<noteq> PNone \<Longrightarrow> \<not> is_bool fd \<Longrightarrow> dosage_of p = Inl (InvalidFirstDose (type_name fd))"
    using w assms(2-5) unfolding dosage_of_def Let_def by (cases fd) simp_all
  show "is_bool fd \<Longrightarrow> \<exists>r. dosage_of p = Inr r"
    using w d assms(2-5) unfolding dosage_of_def Let_def by (cases fd) simp_all
qed

text \<open>
  C4, as amended. For a record that has the key \<^verbatim>\<open>is_first_dose\<close>, \<^verbatim>\<open>calculate_dosage\<close>
  checks in this order. If the weight is absent or \<^verbatim>\<open>None\<close>, is not an \<^verbatim>\<open>int\<close> or
  \<^verbatim>\<open>float\<close>, or is \<^verbatim>\<open><= 0\<close>, it raises the \<^verbatim>\<open>ValueError\<close> for the weight, whose message
  contains the record. Otherwise, if the medication is absent or falsy (empty), it raises
  the \<^verbatim>\<open>ValueError\<close> for the medication, whose message contains the record. Otherwise, if
  the factor lookup or the product raises (see \<open>base_of_Inl\<close>), that exception leaves the
  function. Otherwise, if \<^verbatim>\<open>is_first_dose\<close> is \<^verbatim>\<open>None\<close>, it raises the \<^verbatim>\<open>ValueError\<close> for a
  missing \<^verbatim>\<open>is_first_dose\<close>, whose message contains the record; if it is neither \<^verbatim>\<open>None\<close>
  nor a boolean, it raises a \<^verbatim>\<open>ValueError\<close> whose message contains the name of the value's
  type and not the record; and if it is a boolean, the call returns a record.
\<close>

theorem validation_in_order:
  assumes "map_of p ''is_first_dose'' = Some fd"
  shows "(invalid_weight (dict_get p ''weight'') \<longrightarrow>
            calculate_dosage p = Inl (InvalidWeight p)) \<and>
         (\<not> invalid_weight (dict_get p ''weight'') \<and> \<not> truthy (dict_get p ''medication'') \<longrightarrow>
            calculate_dosage p = Inl (MissingMedication p)) \<and>
         (\<not> invalid_weight (dict_get p ''weight'') \<and> truthy (dict_get p ''medication'') \<and>
          as_num (dict_get p ''weight'') = Some w \<and>
          base_of w (dict_get p ''medication'') = Inl e \<longrightarrow>
            calculate_dosage p = Inl e) \<and>
         (\<not> invalid_weight (dict_get p ''weight'') \<and> truthy (dict_get p ''medication'') \<and>
          as_num (dict_get p ''weight'') = Some w \<and>
          base_of w (dict_get p ''medication'') = Inr b \<and> fd = PNone \<longrightarrow>
            calculate_dosage p = Inl (MissingFirstDose p)) \<and>
         (\<not> invalid_weight (dict_get p ''weight'') \<and> truthy (dict_get p ''medication'') \<and>
          as_num (dict_get p ''weight'') = Some w \<and>
          base_of w (dict_get p ''medication'') = Inr b \<and> fd \<noteq> PNone \<and> \<not> is_bool fd \<longrightarrow>
            calculate_dosage p = Inl (InvalidFirstDose (type_name fd))) \<and>
         (\<not> invalid_weight (dict_get p ''weight'') \<and> truthy (dict_get p ''medication'') \<and>
          as_num (dict_get p ''weight'') = Some w \<and>
          base_of w (dict_get p ''medication'') = Inr b \<and> is_bool fd \<longrightarrow>
            (\<exists>out. calculate_dosage p = Inr out)) \<and>
         names_record (InvalidWeight p) p \<and> names_record (MissingMedication p) p \<and>
         names_record (MissingFirstDose p) p \<and>
         \<not> names_record (InvalidFirstDose (type_name fd)) p"
proof -
  have fd: "dict_get_default p ''is_first_dose'' (PBool False) = fd"
    using assms by (simp add: dict_get_default_def)
  have "is_bool fd \<Longrightarrow> \<not> invalid_weight (dict_get p ''weight'') \<Longrightarrow>
        truthy (dict_get p ''medication'') \<Longrightarrow> as_num (dict_get p ''weight'') = Some w \<Longrightarrow>
        base_of w (dict_get p ''medication'') = Inr b \<Longrightarrow>
        \<exists>out. calculate_dosage p = Inr out"
    using dosage_of_first_dose(3) [OF _ _ _ _ fd] by (fastforce simp: calculate_dosage_def)
  then show ?thesis
    using dosage_of_first_dose(1,2) [OF _ _ _ _ fd]
    by (auto intro!: calculate_dosage_Inl dosage_of_weight dosage_of_medication
          intro: dosage_of_base)
qed

theorem validation_in_order_witness:
  "calculate_dosage
     [(''weight'', PInt 70), (''medication'', PStr ''amiodarone''),
      (''is_first_dose'', PStr ''yes'')] = Inl (InvalidFirstDose ''str'')
   \<and> calculate_dosage
     [(''weight'', PInt 0), (''medication'', PStr ''amiodarone''),
      (''is_first_dose'', PStr ''yes'')] =
     Inl (InvalidWeight [(''weight'', PInt 0), (''medication'', PStr ''amiodarone''),
      (''is_first_dose'', PStr ''yes'')])
   \<and> calculate_dosage
     [(''weight'', PInt 70), (''medication'', PStr []), (''is_first_dose'', PNone)] =
     Inl (MissingMedication
       [(''weight'', PInt 70), (''medication'', PStr []), (''is_first_dose'', PNone)])
   \<and> calculate_dosage
     [(''weight'', PInt 70), (''medication'', PList [PStr ''amiodarone'']),
      (''is_first_dose'', PNone)] = Inl TypeError
   \<and> calculate_dosage
     [(''weight'', PInt 70), (''medication'', PStr ''amiodarone''), (''is_first_dose'', PNone)] =
     Inl (MissingFirstDose
       [(''weight'', PInt 70), (''medication'', PStr ''amiodarone''), (''is_first_dose'', PNone)])
   \<and> (\<exists>out. calculate_dosage
     [(''weight'', PInt 70), (''medication'', PStr ''amiodarone''),
      (''is_first_dose'', PBool False)] = Inr out)"
proof -
  let ?p1 = "[(''weight'', PInt 70), (''medication'', PStr ''amiodarone''),
      (''is_first_dose'', PStr ''yes'')]"
  let ?p2 = "[(''weight'', PInt 0), (''medication'', PStr ''amiodarone''),
      (''is_first_dose'', PStr ''yes'')]"
  let ?p3 = "[(''weight'', PInt 70), (''medication'', PStr []), (''is_first_dose'', PNone)]"
  let ?p4 = "[(''weight'', PInt 70), (''medication'', PStr ''amiodarone''),
      (''is_first_dose'', PNone)]"
  let ?p5 = "[(''weight'', PInt 70), (''medication'', PStr ''amiodarone''),
      (''is_first_dose'', PBool False)]"
  let ?p6 = "[(''weight'', PInt 70), (''medication'', PList [PStr ''amiodarone'']),
      (''is_first_dose'', PNone)]"
  have f1: "map_of ?p1 ''is_first_dose'' = Some (PStr ''yes'')" by simp
  have f2: "map_of ?p2 ''is_first_dose'' = Some (PStr ''yes'')" by simp
  have f3: "map_of ?p3 ''is_first_dose'' = Some PNone" by simp
  have f4: "map_of ?p4 ''is_first_dose'' = Some PNone" by simp
  have f5: "map_of ?p5 ''is_first_dose'' = Some (PBool False)" by simp
  have f6: "map_of ?p6 ''is_first_dose'' = Some PNone" by simp
  have c1: "\<not> invalid_weight (dict_get ?p1 ''weight'') \<and> truthy (dict_get ?p1 ''medication'') \<and>
          as_num (dict_get ?p1 ''weight'') = Some (NInt 70) \<and>
          base_of (NInt 70) (dict_get ?p1 ''medication'') = Inr (NFloat (Finite 350)) \<and>
          PStr ''yes'' \<noteq> PNone \<and> \<not> is_bool (PStr ''yes'')"
    by (simp add: dosage_defs)
  have c2: "invalid_weight (dict_get ?p2 ''weight'')"
    by (simp add: dosage_defs)
  have c3: "\<not> invalid_weight (dict_get ?p3 ''weight'') \<and> \<not> truthy (dict_get ?p3 ''medication'')"
    by (simp add: dosage_defs)
  have c4: "\<not> invalid_weight (dict_get ?p4 ''weight'') \<and> truthy (dict_get ?p4 ''medication'') \<and>
          as_num (dict_get ?p4 ''weight'') = Some (NInt 70) \<and>
          base_of (NInt 70) (dict_get ?p4 ''medication'') = Inr (NFloat (Finite 350))"
    by (simp add: dosage_defs)
  have c5: "\<not> invalid_weight (dict_get ?p5 ''weight'') \<and> truthy (dict_get ?p5 ''medication'') \<and>
          as_num (dict_get ?p5 ''weight'') = Some (NInt 70) \<and>
          base_of (NInt 70) (dict_get ?p5 ''medication'') = Inr (NFloat (Finite 350)) \<and>
          is_bool (PBool False)"
    by (simp add: dosage_defs)
  have c6: "\<not> invalid_weight (dict_get ?p6 ''weight'') \<and> truthy (dict_get ?p6 ''medication'') \<and>
          as_num (dict_get ?p6 ''weight'') = Some (NInt 70) \<and>
          base_of (NInt 70) (dict_get ?p6 ''medication'') = Inl TypeError"
    by (simp add: dosage_defs)
  from validation_in_order [OF f1, of "NInt 70" _ "NFloat (Finite 350)"] c1
  have "calculate_dosage ?p1 = Inl (InvalidFirstDose ''str'')" by simp
  moreover from validation_in_order [OF f2] c2
  have "calculate_dosage ?p2 = Inl (InvalidWeight ?p2)" by blast
  moreover from validation_in_order [OF f3] c3
  have "calculate_dosage ?p3 = Inl (MissingMedication ?p3)" by blast
  moreover from validation_in_order [OF f6, of "NInt 70" TypeError] c6
  have "calculate_dosage ?p6 = Inl TypeError" by blast
  moreover from validation_in_order [OF f4, of "NInt 70" _ "NFloat (Finite 350)"] c4
  have "calculate_dosage ?p4 = Inl (MissingFirstDose ?p4)" by blast
  moreover from validation_in_order [OF f5, of "NInt 70" _ "NFloat (Finite 350)"] c5
  have "\<exists>out. calculate_dosage ?p5 = Inr out" by blast
  ultimately show ?thesis by blast
qed

text \<open>
  A string as \<^verbatim>\<open>is_first_dose\<close> is rejected by an error that does not name the record.
  A record without the key \<^verbatim>\<open>is_first_dose\<close> is not rejected: line 147 reads the key with
  the default \<^verbatim>\<open>False\<close>, so the test of line 148 never sees a missing key.
\<close>

theorem validation_in_order_counterexample:
  "calculate_dosage
     [(''weight'', PInt 70), (''medication'', PStr ''amiodarone''),
      (''is_first_dose'', PStr ''yes'')] = Inl (InvalidFirstDose ''str'')
   \<and> \<not> names_record (InvalidFirstDose ''str'')
         [(''weight'', PInt 70), (''medication'', PStr ''amiodarone''),
          (''is_first_dose'', PStr ''yes'')]
   \<and> map_of [(''weight'', PInt 70), (''medication'', PStr ''amiodarone'')] ''is_first_dose'' = None
   \<and> calculate_dosage [(''weight'', PInt 70), (''medication'', PStr ''amiodarone'')] =
       Inr [(''weight'', PInt 70), (''medication'', PStr ''amiodarone''),
            (''base_dosage'', PFloat (Finite 350)),
            (''loading_dose_applied'', PBool False),
            (''final_dosage'', PFloat (Finite 350)),
            (''warnings'', PList [PStr ''Monitor for hypotension''])]"
  by (simp add: dosage_defs)

subsection \<open>The result is a new object\<close>

lemma set_item_last:
  "set_item (s @ [d]) (length s) k v = s @ [AList.update k v d]"
  by (simp add: set_item_def)

text \<open>On an allocated address the call on the store is the call on the value there; the
  result is appended to the store.\<close>

lemma calculate_dosage_store_eq:
  assumes "patient < length s"
  shows "calculate_dosage_store s patient =
           (case calculate_dosage (s ! patient) of
              Inl e \<Rightarrow> Inl e
            | Inr out \<Rightarrow> Inr (length s, s @ [out]))"
  using assms
  by (simp add: calculate_dosage_store_def calculate_dosage_def copy_obj_def set_item_last
        with_dosage_def nth_append split: sum.splits)

text \<open>
  C9, as amended. When \<^verbatim>\<open>calculate_dosage\<close> returns, the input record and every other
  object allocated before the call are unmodified, and the result is a newly allocated
  record whose keys are the keys of the input together with \<^verbatim>\<open>base_dosage\<close>,
  \<^verbatim>\<open>loading_dose_applied\<close>, \<^verbatim>\<open>final_dosage\<close> and \<^verbatim>\<open>warnings\<close>. Every field of the input
  other than these four keeps its input value in the output; so when the input has none of
  the four, all of its fields do.
\<close>

theorem copy_augmented:
  assumes "patient < length s"
    and "calculate_dosage_store s patient = Inr (r, s')"
  shows "s' ! patient = s ! patient \<and> take (length s) s' = s \<and>
         r = length s \<and> length s' = Suc (length s) \<and>
         dict_keys (s' ! r) = dict_keys (s ! patient) \<union> dosage_keys \<and>
         (\<forall>k. k \<notin> dosage_keys \<longrightarrow> map_of (s' ! r) k = map_of (s ! patient) k) \<and>
         (dict_keys (s ! patient) \<inter> dosage_keys = {} \<longrightarrow>
            (\<forall>k v. map_of (s ! patient) k = Some v \<longrightarrow> map_of (s' ! r) k = Some v))"
proof -
  from assms obtain out where
    run: "calculate_dosage (s ! patient) = Inr out" and r: "r = length s" and s': "s' = s @ [out]"
    by (auto simp: calculate_dosage_store_eq split: sum.splits)
  from calculate_dosage_Inr [OF run] obtain d where out: "out = with_dosage (s ! patient) d"
    by blast
  have frame: "\<forall>k. k \<notin> dosage_keys \<longrightarrow> map_of out k = map_of (s ! patient) k"
    by (simp add: out map_of_with_dosage dosage_keys_def)
  have keys: "dict_keys out = dict_keys (s ! patient) \<union> dosage_keys"
    by (simp add: out dict_keys_with_dosage)
  have all: "dict_keys (s ! patient) \<inter> dosage_keys = {} \<longrightarrow>
            (\<forall>k v. map_of (s ! patient) k = Some v \<longrightarrow> map_of out k = Some v)"
  proof (intro impI allI)
    fix k v
    assume dis: "dict_keys (s ! patient) \<inter> dosage_keys = {}"
      and kv: "map_of (s ! patient) k = Some v"
    from kv have "k \<in> dict_keys (s ! patient)"
      by (auto simp: dict_keys_dom)
    with dis have "k \<notin> dosage_keys" by blast
    with frame kv show "map_of out k = Some v" by simp
  qed
  show ?thesis
    using assms(1) frame keys all by (simp add: r s' nth_append)
qed

theorem copy_augmented_witness:
  "calculate_dosage_store
     [[(''name'', PStr ''John Smith''), (''weight'', PFloat (Finite 70)),
       (''medication'', PStr ''amiodarone''), (''is_first_dose'', PBool False)]] 0 =
   Inr (1,
     [[(''name'', PStr ''John Smith''), (''weight'', PFloat (Finite 70)),
       (''medication'', PStr ''amiodarone''), (''is_first_dose'', PBool False)],
      [(''name'', PStr ''John Smith''), (''weight'', PFloat (Finite 70)),
       (''medication'', PStr ''amiodarone''), (''is_first_dose'', PBool False),
       (''base_dosage'', PFloat (Finite 350)), (''loading_dose_applied'', PBool False),
       (''final_dosage'', PFloat (Finite 350)),
       (''warnings'', PList [PStr ''Monitor for hypotension''])]])
   \<and> dict_keys
       [(''name'', PStr ''John Smith''), (''weight'', PFloat (Finite 70)),
        (''medication'', PStr ''amiodarone''), (''is_first_dose'', PBool False),
        (''base_dosage'', PFloat (Finite 350)), (''loading_dose_applied'', PBool False),
        (''final_dosage'', PFloat (Finite 350)),
        (''warnings'', PList [PStr ''Monitor for hypotension''])] =
      dict_keys
       [(''name'', PStr ''John Smith''), (''weight'', PFloat (Finite 70)),
        (''medication'', PStr ''amiodarone''), (''is_first_dose'', PBool False)]
      \<union> dosage_keys"
proof -
  let ?p = "[(''name'', PStr ''John Smith''), (''weight'', PFloat (Finite 70)),
       (''medication'', PStr ''amiodarone''), (''is_first_dose'', PBool False)]"
  let ?out = "[(''name'', PStr ''John Smith''), (''weight'', PFloat (Finite 70)),
       (''medication'', PStr ''amiodarone''), (''is_first_dose'', PBool False),
       (''base_dosage'', PFloat (Finite 350)), (''loading_dose_applied'', PBool False),
       (''final_dosage'', PFloat (Finite 350)),
       (''warnings'', PList [PStr ''Monitor for hypotension''])]"
  have valid: "0 < length [?p]" by simp
  have run: "calculate_dosage_store [?p] 0 = Inr (1, [?p, ?out])"
    by (simp add: calculate_dosage_store_def copy_obj_def set_item_def dosage_defs)
  from copy_augmented [OF valid run]
  have "dict_keys ([?p, ?out] ! 1) = dict_keys ([?p] ! 0) \<union> dosage_keys"
    by blast
  with run show ?thesis by simp
qed

text \<open>
  An input that already has a field \<^verbatim>\<open>warnings\<close> is accepted, and line 181 overwrites that
  field in the copy: it does not keep its input value.
\<close>

theorem copy_augmented_counterexample:
  "calculate_dosage_store
     [[(''weight'', PInt 70), (''medication'', PStr ''aspirin''),
       (''is_first_dose'', PBool False), (''warnings'', PList [PStr ''penicillin allergy''])]] 0 =
   Inr (1,
     [[(''weight'', PInt 70), (''medication'', PStr ''aspirin''),
       (''is_first_dose'', PBool False), (''warnings'', PList [PStr ''penicillin allergy''])],
      [(''weight'', PInt 70), (''medication'', PStr ''aspirin''),
       (''is_first_dose'', PBool False), (''warnings'', PList []),
       (''base_dosage'', PInt 0), (''loading_dose_applied'', PBool False),
       (''final_dosage'', PInt 0)]])
   \<and> map_of [(''weight'', PInt 70), (''medication'', PStr ''aspirin''),
       (''is_first_dose'', PBool False), (''warnings'', PList [PStr ''penicillin allergy''])]
        ''warnings'' \<noteq>
      map_of [(''weight'', PInt 70), (''medication'', PStr ''aspirin''),
       (''is_first_dose'', PBool False), (''warnings'', PList []),
       (''base_dosage'', PInt 0), (''loading_dose_applied'', PBool False),
       (''final_dosage'', PInt 0)] ''warnings''"
  by (simp add: calculate_dosage_store_def copy_obj_def set_item_def dosage_defs)

section \<open>The total of a batch\<close>

text \<open>
  C1 fails on the code. For the batch of one record with weight 70, amiodarone and no
  first dose, \<^verbatim>\<open>final_dosage\<close> is 350.0, and \<^verbatim>\<open>calculate_all_dosages\<close> returns the total
  700.0: lines 209 and 212 both add it.
\<close>

theorem total_counts_twice:
  "calculate_all_dosages
     [[(''name'', PStr ''John Smith''), (''weight'', PInt 70),
       (''medication'', PStr ''amiodarone''), (''is_first_dose'', PBool False)]] =
   Inr ([[(''name'', PStr ''John Smith''), (''weight'', PInt 70),
          (''medication'', PStr ''amiodarone''), (''is_first_dose'', PBool False),
          (''base_dosage'', PFloat (Finite 350)), (''loading_dose_applied'', PBool False),
          (''final_dosage'', PFloat (Finite 350)),
          (''warnings'', PList [PStr ''Monitor for hypotension''])]],
        NFloat (Finite 700))
   \<and> sum_final
       [[(''name'', PStr ''John Smith''), (''weight'', PInt 70),
          (''medication'', PStr ''amiodarone''), (''is_first_dose'', PBool False),
          (''base_dosage'', PFloat (Finite 350)), (''loading_dose_applied'', PBool False),
          (''final_dosage'', PFloat (Finite 350)),
          (''warnings'', PList [PStr ''Monitor for hypotension''])]] =
      Inr (NFloat (Finite 350))"
  by (simp add: calculate_all_dosages_def add_to_total_def item_def dict_keys_def dosage_defs)

section \<open>Properties of the patient cleaner\<close>

text \<open>
  C2 fails on the code. The record of a ten-year-old is appended at line 99, before the
  test of its age at line 103, and is in the output.
\<close>

theorem minor_in_output:
  "clean_patient_data
     [[(''name'', PStr ''kid''), (''age'', PStr ''10''), (''gender'', PStr ''male''),
       (''diagnosis'', PStr ''flu'')]] =
   Inr [[(''name'', PStr ''Kid''), (''age'', PInt 10), (''gender'', PStr ''male''),
         (''diagnosis'', PStr ''flu'')]]
   \<and> age_ge_18 [(''name'', PStr ''Kid''), (''age'', PInt 10), (''gender'', PStr ''male''),
         (''diagnosis'', PStr ''flu'')] = Inr False"
  by code_simp

text \<open>
  C3 fails on the code. Two equal records of a minor give two output records with the same
  key, as \<open>seen\<close> is emptied in every iteration; two equal records of an adult give four,
  as each is appended at line 99 and again at line 105.
\<close>

theorem duplicates_in_output:
  "clean_patient_data
     [[(''name'', PStr ''kid''), (''age'', PStr ''10''), (''diagnosis'', PStr ''flu'')],
      [(''name'', PStr ''kid''), (''age'', PStr ''10''), (''diagnosis'', PStr ''flu'')]] =
   Inr [[(''name'', PStr ''Kid''), (''age'', PInt 10), (''diagnosis'', PStr ''flu'')],
        [(''name'', PStr ''Kid''), (''age'', PInt 10), (''diagnosis'', PStr ''flu'')]]
   \<and> clean_patient_data
     [[(''name'', PStr ''john smith''), (''age'', PStr ''32''), (''diagnosis'', PStr ''flu'')],
      [(''name'', PStr ''john smith''), (''age'', PStr ''32''), (''diagnosis'', PStr ''flu'')]] =
   Inr [[(''name'', PStr ''John Smith''), (''age'', PInt 32), (''diagnosis'', PStr ''flu'')],
        [(''name'', PStr ''John Smith''), (''age'', PInt 32), (''diagnosis'', PStr ''flu'')],
        [(''name'', PStr ''John Smith''), (''age'', PInt 32), (''diagnosis'', PStr ''flu'')],
        [(''name'', PStr ''John Smith''), (''age'', PInt 32), (''diagnosis'', PStr ''flu'')]]
   \<and> key_of [(''name'', PStr ''Kid''), (''age'', PInt 10), (''diagnosis'', PStr ''flu'')] =
       (PStr ''Kid'', PInt 10, PStr ''flu'')"
  by code_simp

text \<open>
  What the age coercion does where it does not raise: an absent age and a NaN give 0, an
  integer is kept, a finite float is truncated toward zero, a string of digits is read.
\<close>

lemma coerce_age_absent: "map_of p ''age'' = None \<Longrightarrow> coerce_age p = Inr 0"
  by (simp add: coerce_age_def dict_get_default_def ne_self_def)

lemma coerce_age_nan: "map_of p ''age'' = Some (PFloat NaN) \<Longrightarrow> coerce_age p = Inr 0"
  by (simp add: coerce_age_def dict_get_default_def ne_self_def)

lemma coerce_age_int: "map_of p ''age'' = Some (PInt n) \<Longrightarrow> coerce_age p = Inr n"
  by (simp add: coerce_age_def dict_get_default_def ne_self_def)

lemma coerce_age_float:
  "map_of p ''age'' = Some (PFloat (Finite q)) \<Longrightarrow>
   coerce_age p = Inr (if 0 \<le> q then \<lfloor>q\<rfloor> else \<lceil>q\<rceil>)"
  by (simp add: coerce_age_def dict_get_default_def ne_self_def)

text \<open>
  C6 fails on the code. The test \<^verbatim>\<open>age != age\<close> replaces a NaN only; a string that is not
  an integer literal reaches \<^verbatim>\<open>int\<close>, which raises \<^verbatim>\<open>ValueError\<close>, and \<^verbatim>\<open>None\<close> (a JSON
  \<^verbatim>\<open>null\<close>) raises \<^verbatim>\<open>TypeError\<close>. The exception leaves \<^verbatim>\<open>clean_patient_data\<close>.
\<close>

theorem age_coercion_raises:
  "coerce_age [(''name'', PStr ''Ann Lee''), (''age'', PStr ''unknown''),
               (''diagnosis'', PStr ''flu'')] = Inl ValueError
   \<and> coerce_age [(''name'', PStr ''Ann Lee''), (''age'', PNone),
               (''diagnosis'', PStr ''flu'')] = Inl TypeError
   \<and> coerce_age [(''name'', PStr ''Ann Lee''), (''age'', PStr ''32.5''),
               (''diagnosis'', PStr ''flu'')] = Inl ValueError
   \<and> clean_patient_data
       [[(''name'', PStr ''ann lee''), (''age'', PStr ''unknown''),
         (''diagnosis'', PStr ''flu'')]] = Inl ValueError"
  by code_simp

end
